theory Spec2Isabelle
  imports Main
begin

section \<open>The change-propagation poller of lastModifiedListener.js\<close>

text \<open>
  The module polls the metadata store (Elasticsearch) for connection indices, reads the
  sync configurations of each, queries the change-log of the source database
  (PostgreSQL) for rows changed after the configuration's \<open>updatedAt\<close>, turns the rows
  into documents and posts them to the search sink (Azure Search).

  Every function of the module is \<open>async\<close> and awaits each call before the next one,
  so the module runs sequentially. A function is modelled by its result (the value the
  promise resolves to, or the error it rejects with) together with the sequence of calls
  it made to its collaborators, each with its outcome. A collaborator is a function of the
  arguments of the call. Console output is not modelled.
\<close>

subsection \<open>JavaScript values\<close>

datatype jsval = JUndefined | JNull | JBool bool | JNum int | JStr string

text \<open>
  Numbers are restricted to integers; \<open>NaN\<close>, fractions and infinities do not occur. How a
  number prints is left to the engine (\<open>Number_toString\<close> below).
\<close>

datatype error = Error string

fun truthy :: "jsval \<Rightarrow> bool" where
  "truthy JUndefined = False"
| "truthy JNull = False"
| "truthy (JBool b) = b"
| "truthy (JNum n) = (n \<noteq> 0)"
| "truthy (JStr s) = (s \<noteq> [])"

text \<open>\<open>a || b\<close>\<close>

definition js_or :: "jsval \<Rightarrow> jsval \<Rightarrow> jsval" where
  "js_or a b = (if truthy a then a else b)"

definition lower_char :: "char \<Rightarrow> char" where
  "lower_char c =
     (let n = (of_char c :: nat) in if 65 \<le> n \<and> n \<le> 90 then char_of (n + 32) else c)"

text \<open>\<open>s.toLowerCase()\<close> on the ASCII letters; other bytes are left as they are.\<close>

definition toLowerCase :: "string \<Rightarrow> string" where
  "toLowerCase s = map lower_char s"

text \<open>\<open>s.startsWith(p)\<close>\<close>

fun startsWith :: "string \<Rightarrow> string \<Rightarrow> bool" where
  "startsWith s [] = True"
| "startsWith [] (p # ps) = False"
| "startsWith (c # cs) (p # ps) = (c = p \<and> startsWith cs ps)"

subsection \<open>Data\<close>

text \<open>
  A configuration is a hit of the metadata store: \<open>{source: hit._source, id: hit._id}\<close>.
  \<open>fetchIndexDetails\<close> copies \<open>hit._source\<close> unchecked, so \<open>source\<close> is \<open>None\<close>
  (\<open>undefined\<close>) for a hit that carries no source document. A source document is a sync
  configuration with the fields the module reads; of these only \<open>updatedAt\<close> may be
  absent or of any type.
\<close>

record source_doc =
  host :: string
  user :: string
  password :: string
  database :: string
  table_name :: string
  field_name :: string
  field_type :: string
  category :: string
  coid :: string
  updatedAt :: jsval

record config =
  source :: "source_doc option"
  id_cfg :: string

text \<open>
  \<open>config.source.property\<close>: reading a property of \<open>undefined\<close> throws a TypeError that
  names the property.
\<close>

definition source_of :: "string \<Rightarrow> config \<Rightarrow> error + source_doc" where
  "source_of property config =
     (case source config of
        None \<Rightarrow>
          Inl (Error (''Cannot read properties of undefined (reading '' @ [CHR 0x27] @ property @
                      [CHR 0x27] @ '')''))
      | Some src \<Rightarrow> Inr src)"

text \<open>
  A row of the change-log query. \<open>change_time\<close> is a valid \<open>Date\<close>, kept as its time
  value (milliseconds since the epoch). The query selects \<open>new_value AS <field_name>\<close>,
  so \<open>row[fieldName]\<close> reads \<open>new_value\<close>.
\<close>

record row =
  row_id :: jsval
  change_time :: int
  new_value :: jsval
  action_type :: string

definition row_field :: "row \<Rightarrow> string \<Rightarrow> jsval" where
  "row_field r fieldName = new_value r"

record document =
  search_action :: string
  id_doc :: string
  title :: string
  content :: jsval
  description :: string
  image_doc :: jsval
  category_doc :: string

subsection \<open>Calls to the collaborators\<close>

datatype call =
    CatIndices
  | Search string
  | Update string string string
  | PoolConnect string string string string
  | ClientQuery string string "int option"
  | ClientRelease
  | ProcessFieldContent jsval string
  | AxiosPost string "document list"

datatype outcome = Returned | Threw

type_synonym trace = "(call \<times> outcome) list"

text \<open>
  The collaborators and the built-ins of the engine that the module uses
  (\<open>Date.parse\<close>, \<open>Date.prototype.toISOString\<close>, \<open>Number.prototype.toString\<close>) are
  parameters. \<open>Date_parse s = None\<close> stands for \<open>NaN\<close>: a \<open>Date\<close> is its time value, or
  \<open>None\<close> when it is an Invalid Date.
\<close>

record env =
  es_cat_indices :: "error + string list"
  es_search :: "string \<Rightarrow> error + config list"
  es_update :: "string \<Rightarrow> string \<Rightarrow> string \<Rightarrow> error + unit"
  pg_connect :: "source_doc \<Rightarrow> error + unit"
  pg_query :: "source_doc \<Rightarrow> int option \<Rightarrow> error + row list"
  processFieldContent :: "jsval \<Rightarrow> string \<Rightarrow> error + jsval"
  axios_post :: "string \<Rightarrow> document list \<Rightarrow> error + unit"
  Date_parse :: "string \<Rightarrow> int option"
  toISOString :: "int \<Rightarrow> string"
  Number_toString :: "int \<Rightarrow> string"

text \<open>\<open>String(v)\<close>, as a template literal applies it.\<close>

fun String_js :: "env \<Rightarrow> jsval \<Rightarrow> string" where
  "String_js env JUndefined = ''undefined''"
| "String_js env JNull = ''null''"
| "String_js env (JBool b) = (if b then ''true'' else ''false'')"
| "String_js env (JNum n) = Number_toString env n"
| "String_js env (JStr s) = s"

text \<open>\<open>v.toString()\<close>: a property access on \<open>undefined\<close> or \<open>null\<close> throws a TypeError.\<close>

fun toString_js :: "env \<Rightarrow> jsval \<Rightarrow> error + string" where
  "toString_js env JUndefined = Inl (Error ''Cannot read properties of undefined (reading 'toString')'')"
| "toString_js env JNull = Inl (Error ''Cannot read properties of null (reading 'toString')'')"
| "toString_js env v = Inr (String_js env v)"

subsection \<open>Sequencing, \<open>try\<close>/\<open>catch\<close> and \<open>finally\<close>\<close>

type_synonym 'a prog = "(error + 'a) \<times> trace"

definition ret :: "'a \<Rightarrow> 'a prog" where
  "ret x = (Inr x, [])"

definition raise :: "error \<Rightarrow> 'a prog" where
  "raise e = (Inl e, [])"

text \<open>An expression that may throw but calls no collaborator.\<close>

definition pure :: "error + 'a \<Rightarrow> 'a prog" where
  "pure r = (r, [])"

text \<open>An awaited call to a collaborator, recorded with its outcome.\<close>

definition extern :: "call \<Rightarrow> error + 'a \<Rightarrow> 'a prog" where
  "extern c r = (r, [(c, case r of Inl e \<Rightarrow> Threw | Inr x \<Rightarrow> Returned)])"

definition andThen :: "'a prog \<Rightarrow> ('a \<Rightarrow> 'b prog) \<Rightarrow> 'b prog" where
  "andThen m f =
     (case m of
        (Inl e, t) \<Rightarrow> (Inl e, t)
      | (Inr x, t) \<Rightarrow> (case f x of (r, t') \<Rightarrow> (r, t @ t')))"

definition try_catch :: "'a prog \<Rightarrow> (error \<Rightarrow> 'a prog) \<Rightarrow> 'a prog" where
  "try_catch m h =
     (case m of
        (Inl e, t) \<Rightarrow> (case h e of (r, t') \<Rightarrow> (r, t @ t'))
      | (Inr x, t) \<Rightarrow> (Inr x, t))"

definition try_finally :: "'a prog \<Rightarrow> unit prog \<Rightarrow> 'a prog" where
  "try_finally m fin =
     (case m of (r, t) \<Rightarrow>
        (case fin of
           (Inl e, t') \<Rightarrow> (Inl e, t @ t')
         | (Inr u, t') \<Rightarrow> (r, t @ t')))"

subsection \<open>The module\<close>

definition fetchIndicesWithPrefix :: "env \<Rightarrow> string \<Rightarrow> string list prog" where
  "fetchIndicesWithPrefix env prefix =
     try_catch
       (andThen (extern CatIndices (es_cat_indices env)) (\<lambda>result.
          ret (filter (\<lambda>index. startsWith index prefix) result)))
       (\<lambda>error. raise (Error ''Failed to fetch indices from Elasticsearch''))"

definition fetchIndexDetails :: "env \<Rightarrow> string \<Rightarrow> config list prog" where
  "fetchIndexDetails env indexName =
     try_catch
       (extern (Search indexName) (es_search env indexName))
       (\<lambda>error. raise (Error ''Failed to fetch index details from Elasticsearch''))"

definition updateTimeInElasticsearch :: "env \<Rightarrow> string \<Rightarrow> string \<Rightarrow> string \<Rightarrow> unit prog" where
  "updateTimeInElasticsearch env indexName docId updatedAt' =
     try_catch
       (extern (Update indexName docId updatedAt') (es_update env indexName docId updatedAt'))
       (\<lambda>error. raise (Error ''Failed to update updatedAt in Elasticsearch''))"

text \<open>\<open>new Date(v)\<close> for the values \<open>config.source.updatedAt || 0\<close> can take.\<close>

fun new_Date :: "env \<Rightarrow> jsval \<Rightarrow> int option" where
  "new_Date env JUndefined = None"
| "new_Date env JNull = Some 0"
| "new_Date env (JBool b) = Some (if b then 1 else 0)"
| "new_Date env (JNum n) = (if \<bar>n\<bar> \<le> 8640000000000000 then Some n else None)"
| "new_Date env (JStr s) = Date_parse env s"

definition lastIndexedTime :: "env \<Rightarrow> source_doc \<Rightarrow> int option" where
  "lastIndexedTime env src = new_Date env (js_or (updatedAt src) (JNum 0))"

definition connection_index :: "source_doc \<Rightarrow> string" where
  "connection_index src = ''datasource_postgresql_connection_'' @ toLowerCase (coid src)"

text \<open>
  The first read of \<open>config.source\<close> is \<open>config.source.host\<close> in the argument of
  \<open>new Pool\<close>, before \<open>pool.connect()\<close> and outside the \<open>try\<close>.
\<close>

definition fetchUpdatedRows :: "env \<Rightarrow> config \<Rightarrow> row list prog" where
  "fetchUpdatedRows env config =
     andThen (pure (source_of ''host'' config)) (\<lambda>src.
       andThen
         (extern (PoolConnect (host src) (user src) (password src) (database src))
            (pg_connect env src))
         (\<lambda>client.
            try_finally
              (try_catch
                 (andThen
                    (extern (ClientQuery (table_name src) (field_name src) (lastIndexedTime env src))
                       (pg_query env src (lastIndexedTime env src)))
                    (\<lambda>rows.
                       andThen
                         (if length rows > 0 then
                            updateTimeInElasticsearch env (connection_index src) (id_cfg config)
                              (toISOString env (change_time (rows ! (length rows - 1))))
                          else ret ())
                         (\<lambda>u. ret rows)))
                 (\<lambda>error. raise error))
              (extern ClientRelease (Inr ()))))"

definition pushToAzureSearch :: "env \<Rightarrow> document list \<Rightarrow> string \<Rightarrow> unit prog" where
  "pushToAzureSearch env documents indexName =
     try_catch
       (extern (AxiosPost indexName documents) (axios_post env indexName documents))
       (\<lambda>error. raise (Error ''Azure Search push failed.''))"

text \<open>One iteration of the loop over the rows: the \<open>documents\<close> array before and after.\<close>

definition processRow ::
  "env \<Rightarrow> string \<Rightarrow> string \<Rightarrow> string \<Rightarrow> document list \<Rightarrow> row \<Rightarrow> document list prog" where
  "processRow env fieldName fieldType category' documents r =
     try_catch
       (andThen
          (extern (ProcessFieldContent (row_field r fieldName) fieldType)
             (processFieldContent env (row_field r fieldName) fieldType))
          (\<lambda>content'.
             if truthy content' then
               andThen (pure (toString_js env (row_id r))) (\<lambda>id'.
                 ret (documents @
                   [\<lparr> search_action = (if action_type r = ''INSERT'' then ''upload'' else ''mergeOrUpload''),
                      id_doc = id',
                      title = ''Default Title for Row '' @ String_js env (row_id r),
                      content = content',
                      description = ''Default Description for Row '' @ String_js env (row_id r),
                      image_doc = JNull,
                      category_doc = category' \<rparr>]))
             else ret documents))
       (\<lambda>error. ret documents)"

fun forRows ::
  "env \<Rightarrow> string \<Rightarrow> string \<Rightarrow> string \<Rightarrow> document list \<Rightarrow> row list \<Rightarrow> document list prog" where
  "forRows env fieldName fieldType category' documents [] = ret documents"
| "forRows env fieldName fieldType category' documents (r # rows) =
     andThen (processRow env fieldName fieldType category' documents r)
       (\<lambda>documents'. forRows env fieldName fieldType category' documents' rows)"

definition processAndIndexData ::
  "env \<Rightarrow> row list \<Rightarrow> string \<Rightarrow> string \<Rightarrow> string \<Rightarrow> string \<Rightarrow> unit prog" where
  "processAndIndexData env rows fieldName fieldType category' indexName =
     andThen (forRows env fieldName fieldType category' [] rows) (\<lambda>documents.
       if length documents > 0 then pushToAzureSearch env documents indexName
       else ret ())"

definition tenant_index :: "source_doc \<Rightarrow> string" where
  "tenant_index src = ''tenant_'' @ toLowerCase (coid src)"

text \<open>The body of the inner \<open>try\<close> of \<open>processIndices\<close>: one configuration.\<close>

definition processConfig :: "env \<Rightarrow> config \<Rightarrow> unit prog" where
  "processConfig env config =
     andThen (fetchUpdatedRows env config) (\<lambda>updatedRows.
       if length updatedRows > 0 then
         andThen (pure (source_of ''field_name'' config)) (\<lambda>src.
           processAndIndexData env updatedRows (field_name src) (field_type src) (category src)
             (tenant_index src))
       else ret ())"

text \<open>
  The inner \<open>catch\<close> of \<open>processIndices\<close> logs a message built from
  \<open>config.source.table_name\<close> and \<open>config.source.field_name\<close>: the handler itself reads
  \<open>config.source\<close>, and what it throws leaves the loop over the configurations.
\<close>

definition configHandler :: "config \<Rightarrow> error \<Rightarrow> unit prog" where
  "configHandler config error =
     andThen (pure (source_of ''table_name'' config)) (\<lambda>src. ret ())"

fun forConfigs :: "env \<Rightarrow> config list \<Rightarrow> unit prog" where
  "forConfigs env [] = ret ()"
| "forConfigs env (config # indexDetails) =
     andThen (try_catch (processConfig env config) (configHandler config))
       (\<lambda>u. forConfigs env indexDetails)"

text \<open>The body of the outer \<open>try\<close> of \<open>processIndices\<close>: one connection index.\<close>

definition processIndex :: "env \<Rightarrow> string \<Rightarrow> unit prog" where
  "processIndex env indexName =
     andThen (fetchIndexDetails env indexName) (\<lambda>indexDetails. forConfigs env indexDetails)"

fun processIndices :: "env \<Rightarrow> string list \<Rightarrow> unit prog" where
  "processIndices env [] = ret ()"
| "processIndices env (indexName # indices) =
     andThen (try_catch (processIndex env indexName) (\<lambda>error. ret ()))
       (\<lambda>u. processIndices env indices)"

definition lastModifiedListener :: "env \<Rightarrow> unit prog" where
  "lastModifiedListener env =
     try_catch
       (andThen (fetchIndicesWithPrefix env ''datasource_postgresql_connection_'') (\<lambda>indices.
          if length indices > 0 then processIndices env indices else ret ()))
       (\<lambda>error. ret ())"


subsection \<open>Properties of traces\<close>

text \<open>
  The checkpoint (the \<open>updatedAt\<close> watermark of a configuration) is written by
  \<open>esClient.update\<close> and by nothing else; the sink is reached by \<open>axios.post\<close> only; a row
  is transformed by \<open>processFieldContent\<close>.
\<close>

definition is_checkpoint_write :: "call \<Rightarrow> bool" where
  "is_checkpoint_write c = (case c of Update i d u \<Rightarrow> True | _ \<Rightarrow> False)"

definition is_publish :: "call \<Rightarrow> bool" where
  "is_publish c = (case c of AxiosPost i d \<Rightarrow> True | _ \<Rightarrow> False)"

definition is_transform :: "call \<Rightarrow> bool" where
  "is_transform c = (case c of ProcessFieldContent v t \<Rightarrow> True | _ \<Rightarrow> False)"

text \<open>The documents that one row adds to the \<open>documents\<close> array (none or one).\<close>

definition rowDocuments :: "env \<Rightarrow> string \<Rightarrow> string \<Rightarrow> string \<Rightarrow> row \<Rightarrow> document list" where
  "rowDocuments env fieldName fieldType category' r =
     (case fst (processRow env fieldName fieldType category' [] r) of
        Inl e \<Rightarrow> []
      | Inr documents \<Rightarrow> documents)"

text \<open>
  Session discipline of a trace, read from left to right with \<open>held\<close> telling whether a
  client is checked out: \<open>pool.connect()\<close> happens only while none is held, a query only
  on a held client, \<open>client.release()\<close> only on a held client; listing and searching the
  metadata store, the content processor and the sink are called only while none is held;
  none is held at the end. The checkpoint write is allowed in either state.
\<close>

fun scoped :: "bool \<Rightarrow> trace \<Rightarrow> bool" where
  "scoped held [] = (\<not> held)"
| "scoped held ((PoolConnect h u p d, out) # t) = (\<not> held \<and> scoped (out = Returned) t)"
| "scoped held ((ClientQuery a b c, out) # t) = (held \<and> scoped True t)"
| "scoped held ((Update i d u, out) # t) = scoped held t"
| "scoped held ((ClientRelease, out) # t) = (held \<and> scoped False t)"
| "scoped held ((c, out) # t) = (\<not> held \<and> scoped False t)"

subsection \<open>Sample data\<close>

text \<open>
  One configuration of tenant \<open>ACME\<close> last synchronised at 2024-01-01T00:00:00Z
  (time value 1704067200000), change-log rows of 2023-12-31, 2024-01-02 and 2024-01-03, and
  collaborators that all succeed. \<open>sample_Date_parse\<close> and \<open>sample_toISOString\<close> agree
  with the built-ins on the strings and time values that occur below, and
  \<open>sample_Number_toString\<close> (the decimal digits) on the safe integers. The other
  environments change one collaborator each.
\<close>

definition sample_source :: source_doc where
  "sample_source =
     \<lparr> host = ''db.example'', user = ''sync'', password = ''secret'',
       database = ''crm'', table_name = ''notes'', field_name = ''body'',
       field_type = ''text'', category = ''Notes'', coid = ''ACME'',
       updatedAt = JStr ''2024-01-01T00:00:00.000Z'' \<rparr>"

definition sample_config :: config where
  "sample_config = \<lparr> source = Some sample_source, id_cfg = ''cfg-1'' \<rparr>"

definition row_dec31 :: row where
  "row_dec31 = \<lparr> row_id = JNum 6, change_time = 1703980800000, new_value = JStr ''old'',
                 action_type = ''UPDATE'' \<rparr>"

definition row_jan2 :: row where
  "row_jan2 = \<lparr> row_id = JNum 7, change_time = 1704153600000, new_value = JStr ''hello'',
                action_type = ''INSERT'' \<rparr>"

definition row_jan3 :: row where
  "row_jan3 = \<lparr> row_id = JNum 8, change_time = 1704240000000, new_value = JStr ''world'',
                action_type = ''UPDATE'' \<rparr>"

definition row_empty :: row where
  "row_empty = \<lparr> row_id = JNum 9, change_time = 1704153600500, new_value = JStr '''',
                 action_type = ''UPDATE'' \<rparr>"

definition row_throws :: row where
  "row_throws = \<lparr> row_id = JNum 10, change_time = 1704153600900, new_value = JStr ''boom'',
                  action_type = ''INSERT'' \<rparr>"

definition row_delete :: row where
  "row_delete = \<lparr> row_id = JNum 11, change_time = 1704240000500, new_value = JStr ''gone'',
                  action_type = ''DELETE'' \<rparr>"

definition sample_Date_parse :: "string \<Rightarrow> int option" where
  "sample_Date_parse s = (if s = ''2024-01-01T00:00:00.000Z'' then Some 1704067200000 else None)"

definition sample_toISOString :: "int \<Rightarrow> string" where
  "sample_toISOString t =
     (if t = 1703980800000 then ''2023-12-31T00:00:00.000Z''
      else if t = 1704153600000 then ''2024-01-02T00:00:00.000Z''
      else if t = 1704240000000 then ''2024-01-03T00:00:00.000Z''
      else ''1970-01-01T00:00:00.000Z'')"

definition digit_char :: "nat \<Rightarrow> char" where
  "digit_char d = char_of (48 + d)"

function digits :: "nat \<Rightarrow> string" where
  "digits n = (if n < 10 then [digit_char n] else digits (n div 10) @ [digit_char (n mod 10)])"
  by pat_completeness auto
termination
  by (relation "measure (\<lambda>n. n)") auto

declare digits.simps [simp del]

definition sample_Number_toString :: "int \<Rightarrow> string" where
  "sample_Number_toString n = (if n < 0 then CHR ''-'' # digits (nat (- n)) else digits (nat n))"

definition sample_env :: env where
  "sample_env =
     \<lparr> es_cat_indices = Inr [''datasource_postgresql_connection_acme'', ''tenant_acme''],
       es_search = (\<lambda>indexName. Inr [sample_config]),
       es_update = (\<lambda>indexName docId updatedAt'. Inr ()),
       pg_connect = (\<lambda>src. Inr ()),
       pg_query = (\<lambda>src cursor. Inr [row_jan2, row_jan3]),
       processFieldContent = (\<lambda>v fieldType. Inr v),
       axios_post = (\<lambda>indexName documents. Inr ()),
       Date_parse = sample_Date_parse,
       toISOString = sample_toISOString,
       Number_toString = sample_Number_toString \<rparr>"

definition sample_documents :: "document list" where
  "sample_documents =
     [\<lparr> search_action = ''upload'', id_doc = ''7'', title = ''Default Title for Row 7'',
         content = JStr ''hello'', description = ''Default Description for Row 7'',
         image_doc = JNull, category_doc = ''Notes'' \<rparr>,
      \<lparr> search_action = ''mergeOrUpload'', id_doc = ''8'', title = ''Default Title for Row 8'',
         content = JStr ''world'', description = ''Default Description for Row 8'',
         image_doc = JNull, category_doc = ''Notes'' \<rparr>]"

definition document_delete :: document where
  "document_delete =
     \<lparr> search_action = ''mergeOrUpload'', id_doc = ''11'', title = ''Default Title for Row 11'',
       content = JStr ''gone'', description = ''Default Description for Row 11'',
       image_doc = JNull, category_doc = ''Notes'' \<rparr>"

definition env_publish_fails :: env where
  "env_publish_fails =
     sample_env \<lparr> axios_post := (\<lambda>indexName documents. Inl (Error ''Request failed with status code 503'')) \<rparr>"

definition env_unordered :: env where
  "env_unordered = sample_env \<lparr> pg_query := (\<lambda>src cursor. Inr [row_jan3, row_dec31]) \<rparr>"

definition env_no_rows :: env where
  "env_no_rows = sample_env \<lparr> pg_query := (\<lambda>src cursor. Inr []) \<rparr>"

definition env_discovery_fails :: env where
  "env_discovery_fails = sample_env \<lparr> es_cat_indices := Inl (Error ''connect ECONNREFUSED'') \<rparr>"

definition config_never_synced :: config where
  "config_never_synced =
     \<lparr> source = Some (sample_source \<lparr> updatedAt := JUndefined \<rparr>), id_cfg = ''cfg-1'' \<rparr>"

definition config_unparseable :: config where
  "config_unparseable =
     \<lparr> source = Some (sample_source \<lparr> updatedAt := JStr ''not a timestamp'' \<rparr>), id_cfg = ''cfg-1'' \<rparr>"

definition unreachable_source :: source_doc where
  "unreachable_source =
     \<lparr> host = ''db.down'', user = ''sync'', password = ''secret'',
       database = ''erp'', table_name = ''orders'', field_name = ''memo'',
       field_type = ''text'', category = ''Orders'', coid = ''BETA'',
       updatedAt = JNull \<rparr>"

definition config_unreachable :: config where
  "config_unreachable = \<lparr> source = Some unreachable_source, id_cfg = ''cfg-2'' \<rparr>"

definition env_partial :: env where
  "env_partial =
     sample_env
       \<lparr> es_cat_indices := Inr [''datasource_postgresql_connection_gone'',
                                 ''datasource_postgresql_connection_beta''],
         es_search := (\<lambda>indexName.
            if indexName = ''datasource_postgresql_connection_gone''
            then Inl (Error ''index_not_found_exception'')
            else Inr [config_unreachable, sample_config]),
         pg_connect := (\<lambda>src. if host src = ''db.down'' then Inl (Error ''connect ECONNREFUSED'')
                               else Inr ()) \<rparr>"

text \<open>A hit that carries no source document, listed before the sample configuration.\<close>

definition config_without_source :: config where
  "config_without_source = \<lparr> source = None, id_cfg = ''cfg-0'' \<rparr>"

definition env_hit_without_source :: env where
  "env_hit_without_source =
     sample_env
       \<lparr> es_cat_indices := Inr [''datasource_postgresql_connection_acme'',
                                 ''datasource_postgresql_connection_beta''],
         es_search := (\<lambda>indexName.
            if indexName = ''datasource_postgresql_connection_acme''
            then Inr [config_without_source, sample_config]
            else Inr [config_unreachable]),
         pg_connect := (\<lambda>src. if host src = ''db.down'' then Inl (Error ''connect ECONNREFUSED'')
                               else Inr ()) \<rparr>"

definition env_bad_rows :: env where
  "env_bad_rows =
     sample_env \<lparr> processFieldContent := (\<lambda>v fieldType.
        if v = JStr ''boom'' then Inl (Error ''unsupported content'') else Inr v) \<rparr>"

definition env_all_empty :: env where
  "env_all_empty = sample_env \<lparr> processFieldContent := (\<lambda>v fieldType. Inr (JStr '''')) \<rparr>"

section \<open>Flattened forms of the functions\<close>

lemmas prog_defs = ret_def raise_def pure_def extern_def andThen_def try_catch_def try_finally_def

lemma source_of_Some: "source config = Some src \<Longrightarrow> source_of property config = Inr src"
  by (simp add: source_of_def)

lemma source_of_None: "source config = None \<Longrightarrow> \<exists>e. source_of property config = Inl e"
  by (simp add: source_of_def)

lemma fetchUpdatedRows_without_source:
  "source config = None \<Longrightarrow> \<exists>e. fetchUpdatedRows env config = (Inl e, [])"
  by (simp add: fetchUpdatedRows_def source_of_def andThen_def pure_def)

lemma fetchUpdatedRows_unfold:
  assumes "source config = Some src"
  shows "fetchUpdatedRows env config =
     (let connect = PoolConnect (host src) (user src) (password src) (database src);
          query = ClientQuery (table_name src) (field_name src) (lastIndexedTime env src)
      in case pg_connect env src of
           Inl e \<Rightarrow> (Inl e, [(connect, Threw)])
         | Inr client \<Rightarrow>
             (case pg_query env src (lastIndexedTime env src) of
                Inl e \<Rightarrow> (Inl e, [(connect, Returned), (query, Threw), (ClientRelease, Returned)])
              | Inr rows \<Rightarrow>
                  if rows = [] then
                    (Inr [], [(connect, Returned), (query, Returned), (ClientRelease, Returned)])
                  else
                    (let write = Update (connection_index src) (id_cfg config)
                                   (toISOString env (change_time (last rows)))
                     in case es_update env (connection_index src) (id_cfg config)
                               (toISOString env (change_time (last rows))) of
                          Inl e \<Rightarrow>
                            (Inl (Error ''Failed to update updatedAt in Elasticsearch''),
                             [(connect, Returned), (query, Returned), (write, Threw),
                              (ClientRelease, Returned)])
                        | Inr u \<Rightarrow>
                            (Inr rows,
                             [(connect, Returned), (query, Returned), (write, Returned),
                              (ClientRelease, Returned)]))))"
  by (simp add: fetchUpdatedRows_def source_of_Some [OF assms] updateTimeInElasticsearch_def
        prog_defs Let_def last_conv_nth split: sum.splits)

lemma fetchUpdatedRows_returns_source:
  "fst (fetchUpdatedRows env config) = Inr rows \<Longrightarrow> \<exists>src. source config = Some src"
  using fetchUpdatedRows_without_source [of config env] by (cases "source config") auto

lemma rowDocuments_unfold:
  "rowDocuments env fieldName fieldType category' r =
     (case processFieldContent env (row_field r fieldName) fieldType of
        Inl e \<Rightarrow> []
      | Inr content' \<Rightarrow>
          if truthy content' then
            (case toString_js env (row_id r) of
               Inl e \<Rightarrow> []
             | Inr id' \<Rightarrow>
                 [\<lparr> search_action = (if action_type r = ''INSERT'' then ''upload'' else ''mergeOrUpload''),
                    id_doc = id',
                    title = ''Default Title for Row '' @ String_js env (row_id r),
                    content = content',
                    description = ''Default Description for Row '' @ String_js env (row_id r),
                    image_doc = JNull,
                    category_doc = category' \<rparr>])
          else [])"
  by (simp add: rowDocuments_def processRow_def prog_defs split: sum.splits)

lemma processRow_unfold:
  "processRow env fieldName fieldType category' documents r =
     (Inr (documents @ rowDocuments env fieldName fieldType category' r),
      [(ProcessFieldContent (row_field r fieldName) fieldType,
        case processFieldContent env (row_field r fieldName) fieldType of
          Inl e \<Rightarrow> Threw | Inr c \<Rightarrow> Returned)])"
  by (simp add: rowDocuments_unfold processRow_def prog_defs split: sum.splits)

lemma forRows_unfold:
  "forRows env fieldName fieldType category' documents rows =
     (Inr (documents @ concat (map (rowDocuments env fieldName fieldType category') rows)),
      map (\<lambda>r. (ProcessFieldContent (row_field r fieldName) fieldType,
                case processFieldContent env (row_field r fieldName) fieldType of
                  Inl e \<Rightarrow> Threw | Inr c \<Rightarrow> Returned)) rows)"
  by (induction rows arbitrary: documents)
     (simp_all add: processRow_unfold ret_def andThen_def)

lemma pushToAzureSearch_unfold:
  "pushToAzureSearch env documents indexName =
     (case axios_post env indexName documents of
        Inl e \<Rightarrow> (Inl (Error ''Azure Search push failed.''), [(AxiosPost indexName documents, Threw)])
      | Inr u \<Rightarrow> (Inr (), [(AxiosPost indexName documents, Returned)]))"
  by (simp add: pushToAzureSearch_def prog_defs split: sum.splits)

lemma processAndIndexData_trace:
  "snd (processAndIndexData env rows fieldName fieldType category' indexName) =
     snd (forRows env fieldName fieldType category' [] rows) @
     (let documents = concat (map (rowDocuments env fieldName fieldType category') rows)
      in if documents = [] then []
         else [(AxiosPost indexName documents,
                case axios_post env indexName documents of Inl e \<Rightarrow> Threw | Inr u \<Rightarrow> Returned)])"
  by (simp add: processAndIndexData_def forRows_unfold pushToAzureSearch_unfold ret_def
        andThen_def Let_def split: sum.splits)

lemma processAndIndexData_no_checkpoint_write:
  "(c, out) \<in> set (snd (processAndIndexData env rows fieldName fieldType category' indexName))
     \<Longrightarrow> \<not> is_checkpoint_write c"
  by (auto simp: processAndIndexData_trace forRows_unfold is_checkpoint_write_def Let_def
        split: if_splits)

lemma processConfig_unfold:
  assumes "source config = Some src"
  shows "processConfig env config =
     (case fetchUpdatedRows env config of
        (Inl e, t) \<Rightarrow> (Inl e, t)
      | (Inr updatedRows, t) \<Rightarrow>
          if updatedRows = [] then (Inr (), t)
          else (fst (processAndIndexData env updatedRows (field_name src) (field_type src)
                       (category src) (tenant_index src)),
                t @ snd (processAndIndexData env updatedRows (field_name src) (field_type src)
                       (category src) (tenant_index src))))"
  by (simp add: processConfig_def source_of_Some [OF assms] andThen_def ret_def pure_def
        split: prod.splits sum.splits)

lemma processConfig_without_source:
  "source config = None \<Longrightarrow> \<exists>e. processConfig env config = (Inl e, [])"
  using fetchUpdatedRows_without_source [of config env]
  by (auto simp: processConfig_def andThen_def)

lemma fetchIndicesWithPrefix_unfold:
  "fetchIndicesWithPrefix env prefix =
     (case es_cat_indices env of
        Inl e \<Rightarrow> (Inl (Error ''Failed to fetch indices from Elasticsearch''), [(CatIndices, Threw)])
      | Inr result \<Rightarrow>
          (Inr (filter (\<lambda>index. startsWith index prefix) result), [(CatIndices, Returned)]))"
  by (simp add: fetchIndicesWithPrefix_def prog_defs split: sum.splits)

lemma fetchIndexDetails_unfold:
  "fetchIndexDetails env indexName =
     (case es_search env indexName of
        Inl e \<Rightarrow> (Inl (Error ''Failed to fetch index details from Elasticsearch''),
                  [(Search indexName, Threw)])
      | Inr hits \<Rightarrow> (Inr hits, [(Search indexName, Returned)]))"
  by (simp add: fetchIndexDetails_def prog_defs split: sum.splits)

lemma try_catch_swallow: "try_catch m (\<lambda>error. ret ()) = (Inr (), snd m)"
  by (cases m; cases "fst m") (auto simp: try_catch_def ret_def)

text \<open>
  One turn of the loop over the configurations: with a source document the handler
  swallows the error; without one the handler throws before any call is made.
\<close>

lemma config_turn_with_source:
  "source config = Some src \<Longrightarrow>
     try_catch (processConfig env config) (configHandler config) = (Inr (), snd (processConfig env config))"
  by (cases "processConfig env config"; cases "fst (processConfig env config)")
     (auto simp: try_catch_def configHandler_def source_of_def andThen_def pure_def ret_def)

lemma config_turn_without_source:
  "source config = None \<Longrightarrow>
     try_catch (processConfig env config) (configHandler config) =
       (Inl (Error ''Cannot read properties of undefined (reading 'table_name')''), [])"
  using processConfig_without_source [of config env]
  by (auto simp: try_catch_def configHandler_def source_of_def andThen_def pure_def)

lemma forConfigs_trace:
  "snd (forConfigs env configs) =
     concat (map (\<lambda>config. snd (processConfig env config))
               (takeWhile (\<lambda>config. source config \<noteq> None) configs))"
proof (induction configs)
  case Nil
  then show ?case by (simp add: ret_def)
next
  case (Cons config configs)
  show ?case
  proof (cases "source config")
    case None
    then show ?thesis
      by (simp add: config_turn_without_source andThen_def)
  next
    case (Some src)
    then show ?thesis
      using Cons.IH by (auto simp: config_turn_with_source andThen_def split: prod.splits)
  qed
qed

lemma forConfigs_with_sources:
  "(\<And>config. config \<in> set configs \<Longrightarrow> source config \<noteq> None) \<Longrightarrow>
     forConfigs env configs = (Inr (), concat (map (\<lambda>config. snd (processConfig env config)) configs))"
proof (induction configs)
  case Nil
  then show ?case by (simp add: ret_def)
next
  case (Cons config configs)
  then obtain src where "source config = Some src" by auto
  with Cons show ?case
    by (simp add: config_turn_with_source andThen_def)
qed

lemma processIndex_trace:
  "snd (processIndex env indexName) =
     (case es_search env indexName of
        Inl e \<Rightarrow> [(Search indexName, Threw)]
      | Inr indexDetails \<Rightarrow> (Search indexName, Returned) # snd (forConfigs env indexDetails))"
  by (simp add: processIndex_def fetchIndexDetails_unfold andThen_def split: sum.splits prod.splits)

lemma processIndices_unfold:
  "processIndices env indices =
     (Inr (), concat (map (\<lambda>indexName. snd (processIndex env indexName)) indices))"
  by (induction indices) (simp add: ret_def, simp add: try_catch_swallow andThen_def)

lemma lastModifiedListener_unfold:
  "lastModifiedListener env =
     (case es_cat_indices env of
        Inl e \<Rightarrow> (Inr (), [(CatIndices, Threw)])
      | Inr result \<Rightarrow>
          (Inr (), (CatIndices, Returned) #
             snd (processIndices env
                    (filter (\<lambda>index. startsWith index ''datasource_postgresql_connection_'') result))))"
  by (simp add: lastModifiedListener_def fetchIndicesWithPrefix_unfold processIndices_unfold
        prog_defs split: sum.splits)

section \<open>Checkpoint and publish\<close>

text \<open>
  C1, as stated, fails: the checkpoint would be written only after the publish has succeeded
  and the fetch would write nothing. With a sink that rejects the batch, the fetch has
  already written the watermark 2024-01-03 before the documents are posted, and the failed
  post leaves it written.
\<close>

theorem C1_counterexample:
  "fst (processConfig env_publish_fails sample_config) = Inl (Error ''Azure Search push failed.'') \<and>
   snd (processConfig env_publish_fails sample_config) =
     [(PoolConnect ''db.example'' ''sync'' ''secret'' ''crm'', Returned),
      (ClientQuery ''notes'' ''body'' (Some 1704067200000), Returned),
      (Update ''datasource_postgresql_connection_acme'' ''cfg-1'' ''2024-01-03T00:00:00.000Z'', Returned),
      (ClientRelease, Returned),
      (ProcessFieldContent (JStr ''hello'') ''text'', Returned),
      (ProcessFieldContent (JStr ''world'') ''text'', Returned),
      (AxiosPost ''tenant_acme'' sample_documents, Threw)] \<and>
   (Update ''datasource_postgresql_connection_acme'' ''cfg-1'' ''2024-01-03T00:00:00.000Z'', Returned)
     \<in> set (snd (fetchUpdatedRows env_publish_fails sample_config))"
  by code_simp

text \<open>
  C1, amended: for every configuration whose fetch returns at least one row, the checkpoint
  is written by the fetch itself, after the change-log query has returned and before the
  session is released; transform and publish run after the whole fetch, and nothing after
  the fetch writes the checkpoint. So the write precedes the publish and does not depend on
  its outcome.
\<close>

theorem C1_checkpoint_written_by_fetch:
  assumes "fst (fetchUpdatedRows env config) = Inr rows" and "rows \<noteq> []"
  shows "\<exists>src. source config = Some src \<and>
         snd (fetchUpdatedRows env config) =
           [(PoolConnect (host src) (user src) (password src) (database src), Returned),
            (ClientQuery (table_name src) (field_name src) (lastIndexedTime env src), Returned),
            (Update (connection_index src) (id_cfg config)
               (toISOString env (change_time (last rows))), Returned),
            (ClientRelease, Returned)] \<and>
         snd (processConfig env config) =
           snd (fetchUpdatedRows env config) @
           snd (processAndIndexData env rows (field_name src) (field_type src) (category src)
                  (tenant_index src)) \<and>
         (\<forall>c out. (c, out) \<in> set (snd (processAndIndexData env rows (field_name src)
                  (field_type src) (category src) (tenant_index src)))
            \<longrightarrow> \<not> is_checkpoint_write c)"
proof -
  from assms(1) obtain src where src: "source config = Some src"
    using fetchUpdatedRows_returns_source by blast
  from assms have fetch: "snd (fetchUpdatedRows env config) =
           [(PoolConnect (host src) (user src) (password src) (database src), Returned),
            (ClientQuery (table_name src) (field_name src) (lastIndexedTime env src), Returned),
            (Update (connection_index src) (id_cfg config)
               (toISOString env (change_time (last rows))), Returned),
            (ClientRelease, Returned)]"
    by (auto simp: fetchUpdatedRows_unfold [OF src] Let_def split: sum.splits if_splits)
  from assms have "snd (processConfig env config) =
           snd (fetchUpdatedRows env config) @
           snd (processAndIndexData env rows (field_name src) (field_type src) (category src)
                  (tenant_index src))"
    by (cases "fetchUpdatedRows env config") (simp add: processConfig_unfold [OF src])
  with src fetch show ?thesis
    using processAndIndexData_no_checkpoint_write by blast
qed

text \<open>C1 at the sample configuration, with a sink that fails.\<close>

theorem C1_checkpoint_written_by_fetch_witness:
  "fst (fetchUpdatedRows env_publish_fails sample_config) = Inr [row_jan2, row_jan3] \<and>
   [row_jan2, row_jan3] \<noteq> [] \<and>
   snd (fetchUpdatedRows env_publish_fails sample_config) =
     [(PoolConnect ''db.example'' ''sync'' ''secret'' ''crm'', Returned),
      (ClientQuery ''notes'' ''body'' (Some 1704067200000), Returned),
      (Update ''datasource_postgresql_connection_acme'' ''cfg-1'' ''2024-01-03T00:00:00.000Z'', Returned),
      (ClientRelease, Returned)]"
proof -
  have h1: "fst (fetchUpdatedRows env_publish_fails sample_config) = Inr [row_jan2, row_jan3]"
    by code_simp
  have h2: "[row_jan2, row_jan3] \<noteq> []" by simp
  have "lastIndexedTime env_publish_fails sample_source = Some 1704067200000"
    by code_simp
  moreover have "toISOString env_publish_fails (change_time (last [row_jan2, row_jan3]))
      = ''2024-01-03T00:00:00.000Z''"
    by code_simp
  moreover have "connection_index sample_source = ''datasource_postgresql_connection_acme''"
    by code_simp
  ultimately show ?thesis
    using h1 h2 C1_checkpoint_written_by_fetch [OF h1 h2]
    by (auto simp: sample_config_def sample_source_def)
qed

section \<open>The new watermark\<close>

text \<open>
  C2, as stated, fails: the code would sort or reject rows delivered out of order. A source
  that answers with the row of 2024-01-03 followed by the row of 2023-12-31 gets both
  returned in that order, and the watermark written is 2023-12-31, before the cursor
  2024-01-01 of the query.
\<close>

theorem C2_counterexample:
  "lastIndexedTime env_unordered sample_source = Some 1704067200000 \<and>
   fst (fetchUpdatedRows env_unordered sample_config) = Inr [row_jan3, row_dec31] \<and>
   \<not> sorted (map change_time [row_jan3, row_dec31]) \<and>
   (Update ''datasource_postgresql_connection_acme'' ''cfg-1'' ''2023-12-31T00:00:00.000Z'', Returned)
     \<in> set (snd (fetchUpdatedRows env_unordered sample_config)) \<and>
   change_time row_dec31 < 1704067200000"
  by code_simp

text \<open>
  C2, amended: for every configuration whose fetch returns a non-empty sequence, the
  sequence is the one the source delivered, in the order delivered, and the one watermark
  the fetch writes is the ISO string of the \<open>changeTime\<close> of its last element. The code
  neither sorts nor rejects. The watermark written is therefore the latest \<open>changeTime\<close>
  of the batch when the source delivers the rows in non-decreasing order, and is not
  earlier than the cursor of the query when no delivered row is.
\<close>

theorem C2_watermark_is_last_delivered:
  assumes "fst (fetchUpdatedRows env config) = Inr rows" and "rows \<noteq> []"
  shows "\<exists>src watermark.
           source config = Some src \<and>
           pg_query env src (lastIndexedTime env src) = Inr rows \<and>
           watermark = change_time (last rows) \<and>
           filter (\<lambda>(c, out). is_checkpoint_write c) (snd (fetchUpdatedRows env config)) =
             [(Update (connection_index src) (id_cfg config) (toISOString env watermark), Returned)] \<and>
           (sorted (map change_time rows) \<longrightarrow> (\<forall>r \<in> set rows. change_time r \<le> watermark)) \<and>
           (\<forall>cursor. lastIndexedTime env src = Some cursor \<and>
              (\<forall>r \<in> set rows. cursor \<le> change_time r) \<longrightarrow> cursor \<le> watermark)"
proof -
  from assms(1) obtain src where src: "source config = Some src"
    using fetchUpdatedRows_returns_source by blast
  from assms have delivered: "pg_query env src (lastIndexedTime env src) = Inr rows"
    by (auto simp: fetchUpdatedRows_unfold [OF src] Let_def split: sum.splits if_splits)
  from assms have written:
    "filter (\<lambda>(c, out). is_checkpoint_write c) (snd (fetchUpdatedRows env config)) =
       [(Update (connection_index src) (id_cfg config)
           (toISOString env (change_time (last rows))), Returned)]"
    by (auto simp: fetchUpdatedRows_unfold [OF src] is_checkpoint_write_def Let_def
          split: sum.splits if_splits)
  have latest: "\<forall>r \<in> set rows. change_time r \<le> change_time (last rows)"
    if "sorted (map change_time rows)"
  proof
    fix r assume "r \<in> set rows"
    then obtain k where k: "k < length rows" "rows ! k = r"
      by (auto simp: in_set_conv_nth)
    from assms(2) have "last rows = rows ! (length rows - 1)"
      by (rule last_conv_nth)
    moreover from k(1) have "k \<le> length rows - 1" "length rows - 1 < length (map change_time rows)"
      by simp_all
    ultimately show "change_time r \<le> change_time (last rows)"
      using that k sorted_nth_mono [of "map change_time rows" k "length rows - 1"] by simp
  qed
  from assms(2) have "last rows \<in> set rows" by simp
  then have forward: "cursor \<le> change_time (last rows)"
    if "\<forall>r \<in> set rows. cursor \<le> change_time r" for cursor
    using that by blast
  from src delivered written latest forward show ?thesis by blast
qed

text \<open>C2 at the sample configuration, the source delivering the rows in ascending order.\<close>

theorem C2_watermark_is_last_delivered_witness:
  "fst (fetchUpdatedRows sample_env sample_config) = Inr [row_jan2, row_jan3] \<and>
   lastIndexedTime sample_env sample_source = Some 1704067200000 \<and>
   filter (\<lambda>(c, out). is_checkpoint_write c) (snd (fetchUpdatedRows sample_env sample_config)) =
     [(Update ''datasource_postgresql_connection_acme'' ''cfg-1'' ''2024-01-03T00:00:00.000Z'', Returned)] \<and>
   sorted (map change_time [row_jan2, row_jan3]) \<and>
   change_time row_jan2 \<le> change_time (last [row_jan2, row_jan3]) \<and>
   1704067200000 \<le> change_time row_jan2 \<and>
   1704067200000 \<le> change_time row_jan3 \<and>
   1704067200000 \<le> change_time (last [row_jan2, row_jan3])"
proof -
  have h1: "fst (fetchUpdatedRows sample_env sample_config) = Inr [row_jan2, row_jan3]"
    by code_simp
  have h2: "[row_jan2, row_jan3] \<noteq> []" by simp
  have h3: "lastIndexedTime sample_env sample_source = Some 1704067200000"
    by code_simp
  have h4: "sorted (map change_time [row_jan2, row_jan3])"
    by (simp add: row_jan2_def row_jan3_def)
  have h5: "1704067200000 \<le> change_time row_jan2" "1704067200000 \<le> change_time row_jan3"
    by (simp_all add: row_jan2_def row_jan3_def)
  have h6: "toISOString sample_env (change_time (last [row_jan2, row_jan3]))
      = ''2024-01-03T00:00:00.000Z''"
    by code_simp
  have h7: "connection_index sample_source = ''datasource_postgresql_connection_acme''"
    by code_simp
  have h8: "source sample_config = Some sample_source" "id_cfg sample_config = ''cfg-1''"
    by (simp_all add: sample_config_def)
  from C2_watermark_is_last_delivered [OF h1 h2] obtain src watermark where w:
    "source sample_config = Some src"
    "watermark = change_time (last [row_jan2, row_jan3])"
    "filter (\<lambda>(c, out). is_checkpoint_write c) (snd (fetchUpdatedRows sample_env sample_config)) =
       [(Update (connection_index src) (id_cfg sample_config) (toISOString sample_env watermark), Returned)]"
    "sorted (map change_time [row_jan2, row_jan3]) \<longrightarrow>
       (\<forall>r \<in> set [row_jan2, row_jan3]. change_time r \<le> watermark)"
    "\<forall>cursor. lastIndexedTime sample_env src = Some cursor \<and>
       (\<forall>r \<in> set [row_jan2, row_jan3]. cursor \<le> change_time r) \<longrightarrow> cursor \<le> watermark"
    by blast
  from w(1) h8(1) have src: "src = sample_source" by simp
  from w(3) have a: "filter (\<lambda>(c, out). is_checkpoint_write c)
      (snd (fetchUpdatedRows sample_env sample_config)) =
     [(Update ''datasource_postgresql_connection_acme'' ''cfg-1'' ''2024-01-03T00:00:00.000Z'', Returned)]"
    by (simp only: src w(2) h6 h7 h8(2))
  from w(4) h4 have b: "change_time row_jan2 \<le> change_time (last [row_jan2, row_jan3])"
    by (simp add: w(2))
  from w(5) h3 h5 have c: "1704067200000 \<le> change_time (last [row_jan2, row_jan3])"
    by (simp add: src w(2))
  from h1 h3 h4 h5 a b c show ?thesis by simp
qed

section \<open>An empty fetch\<close>

text \<open>
  C3: for every configuration whose fetch returns zero rows, processing the configuration
  connects, queries and releases, and does nothing else: no checkpoint write, no row
  transformed, no publish.
\<close>

theorem C3_no_rows_is_a_noop:
  assumes "fst (fetchUpdatedRows env config) = Inr []"
  shows "\<exists>src. source config = Some src \<and>
         fst (processConfig env config) = Inr () \<and>
         snd (processConfig env config) =
           [(PoolConnect (host src) (user src) (password src) (database src), Returned),
            (ClientQuery (table_name src) (field_name src) (lastIndexedTime env src), Returned),
            (ClientRelease, Returned)] \<and>
         (\<forall>c out. (c, out) \<in> set (snd (processConfig env config)) \<longrightarrow>
            \<not> is_checkpoint_write c \<and> \<not> is_transform c \<and> \<not> is_publish c)"
proof -
  from assms obtain src where src: "source config = Some src"
    using fetchUpdatedRows_returns_source by blast
  from assms have "processConfig env config =
      (Inr (), [(PoolConnect (host src) (user src) (password src) (database src), Returned),
            (ClientQuery (table_name src) (field_name src) (lastIndexedTime env src), Returned),
            (ClientRelease, Returned)])"
    by (auto simp: processConfig_unfold [OF src] fetchUpdatedRows_unfold [OF src] Let_def
          split: sum.splits if_splits)
  with src show ?thesis
    by (simp add: is_checkpoint_write_def is_transform_def is_publish_def)
qed

text \<open>C3 at the sample configuration, with a change-log that has nothing new.\<close>

theorem C3_no_rows_is_a_noop_witness:
  "fst (fetchUpdatedRows env_no_rows sample_config) = Inr [] \<and>
   fst (processConfig env_no_rows sample_config) = Inr () \<and>
   snd (processConfig env_no_rows sample_config) =
     [(PoolConnect ''db.example'' ''sync'' ''secret'' ''crm'', Returned),
      (ClientQuery ''notes'' ''body'' (Some 1704067200000), Returned),
      (ClientRelease, Returned)]"
proof -
  have h: "fst (fetchUpdatedRows env_no_rows sample_config) = Inr []"
    by code_simp
  have "lastIndexedTime env_no_rows sample_source = Some 1704067200000"
    by code_simp
  then show ?thesis
    using h C3_no_rows_is_a_noop [OF h] by (auto simp: sample_config_def sample_source_def)
qed

section \<open>The entry point\<close>

text \<open>
  C4, as stated, fails: the entry point would throw when discovery fails. With an
  unreachable catalogue \<open>fetchIndicesWithPrefix\<close> throws, and the entry point catches the
  error and returns normally.
\<close>

theorem C4_counterexample:
  "fst (fetchIndicesWithPrefix env_discovery_fails ''datasource_postgresql_connection_'') =
     Inl (Error ''Failed to fetch indices from Elasticsearch'') \<and>
   lastModifiedListener env_discovery_fails = (Inr (), [(CatIndices, Threw)])"
  by code_simp

text \<open>
  C4, amended: the entry point returns normally in every case. Failures of configurations
  and connections are caught inside \<open>processIndices\<close>; a failure of discovery is caught by
  the entry point itself, which then does nothing more in that cycle.
\<close>

theorem C4_entry_point_never_throws:
  "fst (lastModifiedListener env) = Inr () \<and>
   (\<forall>e. es_cat_indices env = Inl e \<longrightarrow>
      fst (fetchIndicesWithPrefix env ''datasource_postgresql_connection_'') =
        Inl (Error ''Failed to fetch indices from Elasticsearch'') \<and>
      snd (lastModifiedListener env) = [(CatIndices, Threw)])"
  by (simp add: lastModifiedListener_unfold fetchIndicesWithPrefix_unfold split: sum.splits)

text \<open>
  C4 with an unreachable catalogue, with a failing connection and configuration, and with
  a hit that has no source document.
\<close>

theorem C4_entry_point_never_throws_witness:
  "es_cat_indices env_discovery_fails = Inl (Error ''connect ECONNREFUSED'') \<and>
   fst (lastModifiedListener env_discovery_fails) = Inr () \<and>
   snd (lastModifiedListener env_discovery_fails) = [(CatIndices, Threw)] \<and>
   fst (lastModifiedListener env_partial) = Inr () \<and>
   fst (lastModifiedListener env_hit_without_source) = Inr ()"
proof -
  have h: "es_cat_indices env_discovery_fails = Inl (Error ''connect ECONNREFUSED'')"
    by (simp add: env_discovery_fails_def)
  show ?thesis
    using h C4_entry_point_never_throws [of env_discovery_fails]
      C4_entry_point_never_throws [of env_partial]
      C4_entry_point_never_throws [of env_hit_without_source]
    by simp
qed

section \<open>The cursor of the query\<close>

text \<open>
  C5, as stated, fails: an unparseable checkpoint would fall back to the epoch. The string
  \<open>not a timestamp\<close> is truthy, so \<open>|| 0\<close> keeps it, and \<open>new Date\<close> of it is an Invalid
  Date, not the epoch; the query is made with that Invalid Date.
\<close>

theorem C5_counterexample:
  "source config_unparseable = Some (sample_source \<lparr> updatedAt := JStr ''not a timestamp'' \<rparr>) \<and>
   Date_parse sample_env ''not a timestamp'' = None \<and>
   lastIndexedTime sample_env (sample_source \<lparr> updatedAt := JStr ''not a timestamp'' \<rparr>) = None \<and>
   lastIndexedTime sample_env (sample_source \<lparr> updatedAt := JStr ''not a timestamp'' \<rparr>) \<noteq> Some 0 \<and>
   (ClientQuery ''notes'' ''body'' None, Returned)
     \<in> set (snd (fetchUpdatedRows sample_env config_unparseable))"
  by code_simp

text \<open>
  C5, amended: the cursor is the epoch when \<open>updatedAt\<close> is absent or falsy
  (\<open>undefined\<close>, \<open>null\<close>, the empty string, 0); it is \<open>new Date(updatedAt)\<close> when
  \<open>updatedAt\<close> is a non-empty string, which is the parsed time when the string parses and
  an Invalid Date when it does not (there is no fallback); it is the time value itself for
  a non-zero number in range. This cursor is the parameter of the change-log query.
\<close>

theorem C5_cursor:
  "(\<not> truthy (updatedAt src) \<longrightarrow> lastIndexedTime env src = Some 0) \<and>
   (\<forall>s. updatedAt src = JStr s \<and> s \<noteq> [] \<longrightarrow> lastIndexedTime env src = Date_parse env s) \<and>
   (\<forall>n. updatedAt src = JNum n \<and> n \<noteq> 0 \<and> \<bar>n\<bar> \<le> 8640000000000000 \<longrightarrow>
      lastIndexedTime env src = Some n) \<and>
   (\<forall>config client. source config = Some src \<and> pg_connect env src = Inr client \<longrightarrow>
      (\<exists>out. (ClientQuery (table_name src) (field_name src) (lastIndexedTime env src), out)
               \<in> set (snd (fetchUpdatedRows env config))))"
proof -
  have "\<not> truthy (updatedAt src) \<Longrightarrow> lastIndexedTime env src = Some 0"
    by (simp add: lastIndexedTime_def js_or_def)
  moreover have "updatedAt src = JStr s \<and> s \<noteq> [] \<Longrightarrow> lastIndexedTime env src = Date_parse env s"
    for s
    by (simp add: lastIndexedTime_def js_or_def)
  moreover have "updatedAt src = JNum n \<and> n \<noteq> 0 \<and> \<bar>n\<bar> \<le> 8640000000000000 \<Longrightarrow>
      lastIndexedTime env src = Some n" for n
    by (simp add: lastIndexedTime_def js_or_def)
  moreover have "\<exists>out. (ClientQuery (table_name src) (field_name src) (lastIndexedTime env src), out)
               \<in> set (snd (fetchUpdatedRows env config))"
    if "source config = Some src \<and> pg_connect env src = Inr client" for config client
  proof -
    from that have src: "source config = Some src" and ok: "pg_connect env src = Inr client"
      by simp_all
    from ok show ?thesis
      by (auto simp: fetchUpdatedRows_unfold [OF src] Let_def split: sum.splits)
  qed
  ultimately show ?thesis by blast
qed

text \<open>C5 at a configuration never synchronised, at the sample and at an unparseable one.\<close>

theorem C5_cursor_witness:
  "\<not> truthy (updatedAt (sample_source \<lparr> updatedAt := JUndefined \<rparr>)) \<and>
   lastIndexedTime sample_env (sample_source \<lparr> updatedAt := JUndefined \<rparr>) = Some 0 \<and>
   updatedAt sample_source = JStr ''2024-01-01T00:00:00.000Z'' \<and>
   lastIndexedTime sample_env sample_source = Some 1704067200000 \<and>
   updatedAt (sample_source \<lparr> updatedAt := JStr ''not a timestamp'' \<rparr>) = JStr ''not a timestamp'' \<and>
   lastIndexedTime sample_env (sample_source \<lparr> updatedAt := JStr ''not a timestamp'' \<rparr>) = None \<and>
   source sample_config = Some sample_source \<and>
   pg_connect sample_env sample_source = Inr () \<and>
   (ClientQuery ''notes'' ''body'' (Some 1704067200000), Returned)
     \<in> set (snd (fetchUpdatedRows sample_env sample_config))"
proof -
  have a: "\<not> truthy (updatedAt (sample_source \<lparr> updatedAt := JUndefined \<rparr>))"
    by simp
  have b: "updatedAt sample_source = JStr ''2024-01-01T00:00:00.000Z''"
    by (simp add: sample_source_def)
  have c: "updatedAt (sample_source \<lparr> updatedAt := JStr ''not a timestamp'' \<rparr>) = JStr ''not a timestamp''"
    by simp
  have d: "source sample_config = Some sample_source" "pg_connect sample_env sample_source = Inr ()"
    by (simp_all add: sample_config_def sample_env_def)
  have e: "Date_parse sample_env ''2024-01-01T00:00:00.000Z'' = Some 1704067200000"
    by (simp add: sample_env_def sample_Date_parse_def)
  have f: "Date_parse sample_env ''not a timestamp'' = None"
    by (simp add: sample_env_def sample_Date_parse_def)
  have g: "(ClientQuery ''notes'' ''body'' (Some 1704067200000), Returned)
     \<in> set (snd (fetchUpdatedRows sample_env sample_config))"
    by code_simp
  show ?thesis
    using a b c d e f g
      C5_cursor [where src = "sample_source \<lparr> updatedAt := JUndefined \<rparr>" and env = sample_env]
      C5_cursor [where src = sample_source and env = sample_env]
      C5_cursor [where src = "sample_source \<lparr> updatedAt := JStr ''not a timestamp'' \<rparr>"
        and env = sample_env]
    by simp
qed

section \<open>Failure isolation\<close>


section \<open>Transformation of a batch\<close>

lemma rowDocuments_dropped:
  assumes "(\<exists>e. processFieldContent env (row_field r fieldName) fieldType = Inl e) \<or>
           (\<exists>c. processFieldContent env (row_field r fieldName) fieldType = Inr c \<and> \<not> truthy c)"
  shows "rowDocuments env fieldName fieldType category' r = []"
  using assms by (auto simp: rowDocuments_unfold)

lemma rowDocuments_kept:
  assumes "processFieldContent env (row_field s fieldName) fieldType = Inr c" and "truthy c"
    and "toString_js env (row_id s) = Inr i"
  shows "rowDocuments env fieldName fieldType category' s =
     [\<lparr> search_action = (if action_type s = ''INSERT'' then ''upload'' else ''mergeOrUpload''),
        id_doc = i,
        title = ''Default Title for Row '' @ String_js env (row_id s),
        content = c,
        description = ''Default Description for Row '' @ String_js env (row_id s),
        image_doc = JNull,
        category_doc = category' \<rparr>]"
  using assms by (simp add: rowDocuments_unfold)

lemma rowDocuments_shape:
  "rowDocuments env fieldName fieldType category' r = [] \<or>
   (\<exists>d. rowDocuments env fieldName fieldType category' r = [d] \<and>
        search_action d = (if action_type r = ''INSERT'' then ''upload'' else ''mergeOrUpload'') \<and>
        toString_js env (row_id r) = Inr (id_doc d))"
  by (simp add: rowDocuments_unfold split: sum.splits)

lemma processAndIndexData_publishes:
  assumes "concat (map (rowDocuments env fieldName fieldType category') rows) \<noteq> []"
  shows "\<exists>out. (AxiosPost indexName (concat (map (rowDocuments env fieldName fieldType category') rows)), out)
           \<in> set (snd (processAndIndexData env rows fieldName fieldType category' indexName))"
proof -
  from assms have "snd (processAndIndexData env rows fieldName fieldType category' indexName) =
      snd (forRows env fieldName fieldType category' [] rows) @
      [(AxiosPost indexName (concat (map (rowDocuments env fieldName fieldType category') rows)),
        case axios_post env indexName (concat (map (rowDocuments env fieldName fieldType category') rows))
        of Inl e \<Rightarrow> Threw | Inr u \<Rightarrow> Returned)]"
    by (simp only: processAndIndexData_trace Let_def if_False)
  then show ?thesis by auto
qed

text \<open>
  C7: a row whose content processing throws, or yields falsy content, adds no document,
  and the documents of the batch are those of the batch without that row; every other row
  of the batch whose processing yields content is in the batch that is posted to the sink.
\<close>

theorem C7_dropped_row_leaves_siblings:
  assumes "(\<exists>e. processFieldContent env (row_field r fieldName) fieldType = Inl e) \<or>
           (\<exists>c. processFieldContent env (row_field r fieldName) fieldType = Inr c \<and> \<not> truthy c)"
  shows "fst (processRow env fieldName fieldType category' documents r) = Inr documents \<and>
         fst (forRows env fieldName fieldType category' [] (before @ r # after)) =
           fst (forRows env fieldName fieldType category' [] (before @ after)) \<and>
         (\<forall>s c i. s \<in> set (before @ after) \<and>
              processFieldContent env (row_field s fieldName) fieldType = Inr c \<and> truthy c \<and>
              toString_js env (row_id s) = Inr i \<longrightarrow>
            (\<exists>published out d.
               (AxiosPost indexName published, out)
                 \<in> set (snd (processAndIndexData env (before @ r # after) fieldName fieldType
                               category' indexName)) \<and>
               d \<in> set published \<and> id_doc d = i \<and> content d = c))"
proof -
  have dropped: "rowDocuments env fieldName fieldType category' r = []"
    using assms by (rule rowDocuments_dropped)
  have one: "fst (processRow env fieldName fieldType category' documents r) = Inr documents"
    by (simp add: processRow_unfold dropped)
  have batch: "fst (forRows env fieldName fieldType category' [] (before @ r # after)) =
           fst (forRows env fieldName fieldType category' [] (before @ after))"
    by (simp add: forRows_unfold dropped)
  have siblings: "\<exists>published out d.
               (AxiosPost indexName published, out)
                 \<in> set (snd (processAndIndexData env (before @ r # after) fieldName fieldType
                               category' indexName)) \<and>
               d \<in> set published \<and> id_doc d = i \<and> content d = c"
    if s: "s \<in> set (before @ after)"
      and c: "processFieldContent env (row_field s fieldName) fieldType = Inr c" "truthy c"
      and i: "toString_js env (row_id s) = Inr i"
    for s c i
  proof -
    let ?published = "concat (map (rowDocuments env fieldName fieldType category') (before @ r # after))"
    obtain d where d: "rowDocuments env fieldName fieldType category' s = [d]"
        "id_doc d = i" "content d = c"
      using rowDocuments_kept [OF c i, of category'] by simp
    from s have "s \<in> set (before @ r # after)" by auto
    with d(1) have mem: "d \<in> set ?published" by force
    then have "?published \<noteq> []" by auto
    then have "\<exists>out. (AxiosPost indexName ?published, out)
        \<in> set (snd (processAndIndexData env (before @ r # after) fieldName fieldType
                      category' indexName))"
      by (rule processAndIndexData_publishes)
    with mem d(2,3) show ?thesis by blast
  qed
  from one batch siblings show ?thesis by blast
qed

text \<open>C7 on a batch of four rows, the second with empty content and the third failing.\<close>

theorem C7_dropped_row_leaves_siblings_witness:
  "processFieldContent env_bad_rows (row_field row_empty ''body'') ''text'' = Inr (JStr '''') \<and>
   \<not> truthy (JStr '''') \<and>
   processFieldContent env_bad_rows (row_field row_throws ''body'') ''text'' =
     Inl (Error ''unsupported content'') \<and>
   fst (forRows env_bad_rows ''body'' ''text'' ''Notes'' []
          [row_jan2, row_empty, row_throws, row_jan3]) = Inr sample_documents"
proof -
  have a: "processFieldContent env_bad_rows (row_field row_empty ''body'') ''text'' = Inr (JStr '''')"
    by code_simp
  have b: "processFieldContent env_bad_rows (row_field row_throws ''body'') ''text'' =
     Inl (Error ''unsupported content'')"
    by code_simp
  have c: "fst (forRows env_bad_rows ''body'' ''text'' ''Notes'' [] [row_jan2, row_jan3]) =
     Inr sample_documents"
    by code_simp
  have "fst (forRows env_bad_rows ''body'' ''text'' ''Notes'' []
          ([row_jan2] @ row_empty # [row_throws, row_jan3])) =
        fst (forRows env_bad_rows ''body'' ''text'' ''Notes'' [] ([row_jan2] @ [row_throws, row_jan3]))"
    using a C7_dropped_row_leaves_siblings
      [of env_bad_rows row_empty "''body''" "''text''" "''Notes''" "[]" "[row_jan2]"
        "[row_throws, row_jan3]"]
    by simp
  moreover have "fst (forRows env_bad_rows ''body'' ''text'' ''Notes'' []
          ([row_jan2] @ row_throws # [row_jan3])) =
        fst (forRows env_bad_rows ''body'' ''text'' ''Notes'' [] ([row_jan2] @ [row_jan3]))"
    using b C7_dropped_row_leaves_siblings
      [of env_bad_rows row_throws "''body''" "''text''" "''Notes''" "[]" "[row_jan2]" "[row_jan3]"]
    by simp
  ultimately have "fst (forRows env_bad_rows ''body'' ''text'' ''Notes'' []
          [row_jan2, row_empty, row_throws, row_jan3]) = Inr sample_documents"
    using c by (simp only: append.simps)
  with a b show ?thesis by simp
qed

text \<open>
  C8: every row whose processing yields content, and whose row id converts to a string,
  adds exactly one document: its action is \<open>upload\<close> when the row's action type is
  \<open>INSERT\<close> and \<open>mergeOrUpload\<close> for every other action type (\<open>UPDATE\<close>, \<open>DELETE\<close> and
  any other string alike), its id is the row id converted to a string, and it is among the
  documents of every batch the row is part of. Conversely a row adds nothing else, and
  every document of a transformed batch is such a document of one of its rows.
\<close>

theorem C8_action_and_id:
  "(\<forall>c i. processFieldContent env (row_field r fieldName) fieldType = Inr c \<and> truthy c \<and>
          toString_js env (row_id r) = Inr i \<longrightarrow>
      (\<exists>d. fst (processRow env fieldName fieldType category' documents r) = Inr (documents @ [d]) \<and>
           search_action d = (if action_type r = ''INSERT'' then ''upload'' else ''mergeOrUpload'') \<and>
           id_doc d = i \<and> content d = c \<and>
           (\<forall>before after. \<exists>published.
              fst (forRows env fieldName fieldType category' [] (before @ r # after)) = Inr published \<and>
              d \<in> set published))) \<and>
   (\<forall>documents'. fst (processRow env fieldName fieldType category' documents r) = Inr documents' \<longrightarrow>
      documents' = documents \<or>
      (\<exists>d. documents' = documents @ [d] \<and>
           search_action d = (if action_type r = ''INSERT'' then ''upload'' else ''mergeOrUpload'') \<and>
           toString_js env (row_id r) = Inr (id_doc d))) \<and>
   (\<forall>published d. fst (forRows env fieldName fieldType category' [] rows) = Inr published \<and>
      d \<in> set published \<longrightarrow>
      (\<exists>r \<in> set rows.
         search_action d = (if action_type r = ''INSERT'' then ''upload'' else ''mergeOrUpload'') \<and>
         toString_js env (row_id r) = Inr (id_doc d)))"
proof -
  have positive: "\<exists>d. fst (processRow env fieldName fieldType category' documents r) = Inr (documents @ [d]) \<and>
           search_action d = (if action_type r = ''INSERT'' then ''upload'' else ''mergeOrUpload'') \<and>
           id_doc d = i \<and> content d = c \<and>
           (\<forall>before after. \<exists>published.
              fst (forRows env fieldName fieldType category' [] (before @ r # after)) = Inr published \<and>
              d \<in> set published)"
    if "processFieldContent env (row_field r fieldName) fieldType = Inr c \<and> truthy c \<and>
          toString_js env (row_id r) = Inr i" for c i
  proof -
    let ?d = "\<lparr> search_action = (if action_type r = ''INSERT'' then ''upload'' else ''mergeOrUpload''),
        id_doc = i,
        title = ''Default Title for Row '' @ String_js env (row_id r),
        content = c,
        description = ''Default Description for Row '' @ String_js env (row_id r),
        image_doc = JNull,
        category_doc = category' \<rparr>"
    from that have kept: "rowDocuments env fieldName fieldType category' r = [?d]"
      using rowDocuments_kept [of env r fieldName fieldType c i category'] by simp
    then have "fst (processRow env fieldName fieldType category' documents r) = Inr (documents @ [?d])"
      by (simp add: processRow_unfold)
    moreover have "\<exists>published.
        fst (forRows env fieldName fieldType category' [] (before @ r # after)) = Inr published \<and>
        ?d \<in> set published" for before after
      by (simp add: forRows_unfold kept)
    ultimately show ?thesis
      by (intro exI [of _ ?d]) simp
  qed
  have "documents' = documents \<or>
      (\<exists>d. documents' = documents @ [d] \<and>
           search_action d = (if action_type r = ''INSERT'' then ''upload'' else ''mergeOrUpload'') \<and>
           toString_js env (row_id r) = Inr (id_doc d))"
    if "fst (processRow env fieldName fieldType category' documents r) = Inr documents'"
    for documents'
    using that rowDocuments_shape [of env fieldName fieldType category' r]
    by (auto simp: processRow_unfold)
  moreover have "\<exists>r \<in> set rows.
         search_action d = (if action_type r = ''INSERT'' then ''upload'' else ''mergeOrUpload'') \<and>
         toString_js env (row_id r) = Inr (id_doc d)"
    if "fst (forRows env fieldName fieldType category' [] rows) = Inr published \<and> d \<in> set published"
    for published d
  proof -
    from that obtain r where r: "r \<in> set rows" "d \<in> set (rowDocuments env fieldName fieldType category' r)"
      by (auto simp: forRows_unfold)
    with rowDocuments_shape [of env fieldName fieldType category' r] show ?thesis by auto
  qed
  ultimately show ?thesis
    using positive by blast
qed

text \<open>C8 on an \<open>INSERT\<close> row and on a \<open>DELETE\<close> row.\<close>

theorem C8_action_and_id_witness:
  "processFieldContent sample_env (row_field row_jan2 ''body'') ''text'' = Inr (JStr ''hello'') \<and>
   truthy (JStr ''hello'') \<and>
   toString_js sample_env (row_id row_jan2) = Inr ''7'' \<and>
   action_type row_jan2 = ''INSERT'' \<and>
   fst (processRow sample_env ''body'' ''text'' ''Notes'' [] row_jan2) = Inr [sample_documents ! 0] \<and>
   search_action (sample_documents ! 0) = ''upload'' \<and>
   id_doc (sample_documents ! 0) = ''7'' \<and>
   processFieldContent sample_env (row_field row_delete ''body'') ''text'' = Inr (JStr ''gone'') \<and>
   truthy (JStr ''gone'') \<and>
   toString_js sample_env (row_id row_delete) = Inr ''11'' \<and>
   action_type row_delete = ''DELETE'' \<and>
   fst (processRow sample_env ''body'' ''text'' ''Notes'' [] row_delete) = Inr [document_delete] \<and>
   search_action document_delete = ''mergeOrUpload'' \<and>
   id_doc document_delete = ''11'' \<and>
   fst (forRows sample_env ''body'' ''text'' ''Notes'' [] [row_jan2, row_delete]) =
     Inr [sample_documents ! 0, document_delete]"
proof -
  have a: "processFieldContent sample_env (row_field row_jan2 ''body'') ''text'' = Inr (JStr ''hello'')"
    "toString_js sample_env (row_id row_jan2) = Inr ''7''"
    "action_type row_jan2 = ''INSERT''"
    by code_simp+
  have b: "processFieldContent sample_env (row_field row_delete ''body'') ''text'' = Inr (JStr ''gone'')"
    "toString_js sample_env (row_id row_delete) = Inr ''11''"
    "action_type row_delete = ''DELETE''"
    by code_simp+
  have c: "fst (processRow sample_env ''body'' ''text'' ''Notes'' [] row_jan2) =
      Inr [sample_documents ! 0]"
    by code_simp
  have d: "fst (processRow sample_env ''body'' ''text'' ''Notes'' [] row_delete) =
      Inr [document_delete]"
    by code_simp
  have insert: "search_action (sample_documents ! 0) = ''upload'' \<and> id_doc (sample_documents ! 0) = ''7''"
  proof -
    have "\<forall>c i. processFieldContent sample_env (row_field row_jan2 ''body'') ''text'' = Inr c \<and>
          truthy c \<and> toString_js sample_env (row_id row_jan2) = Inr i \<longrightarrow>
      (\<exists>d. fst (processRow sample_env ''body'' ''text'' ''Notes'' [] row_jan2) = Inr ([] @ [d]) \<and>
           search_action d = (if action_type row_jan2 = ''INSERT'' then ''upload'' else ''mergeOrUpload'') \<and>
           id_doc d = i \<and> content d = c \<and>
           (\<forall>before after. \<exists>published.
              fst (forRows sample_env ''body'' ''text'' ''Notes'' [] (before @ row_jan2 # after)) =
                Inr published \<and> d \<in> set published))"
      using C8_action_and_id [of sample_env row_jan2 "''body''" "''text''" "''Notes''" "[]" "[]"]
      by (rule conjunct1)
    with a(1,2) obtain d0 where d0:
      "fst (processRow sample_env ''body'' ''text'' ''Notes'' [] row_jan2) = Inr ([] @ [d0])"
      "search_action d0 = (if action_type row_jan2 = ''INSERT'' then ''upload'' else ''mergeOrUpload'')"
      "id_doc d0 = ''7''"
      by fastforce
    from d0(1) c have "d0 = sample_documents ! 0" by simp
    with d0(2,3) a(3) show ?thesis by simp
  qed
  have delete: "search_action document_delete = ''mergeOrUpload'' \<and> id_doc document_delete = ''11''"
  proof -
    have "\<forall>c i. processFieldContent sample_env (row_field row_delete ''body'') ''text'' = Inr c \<and>
          truthy c \<and> toString_js sample_env (row_id row_delete) = Inr i \<longrightarrow>
      (\<exists>d. fst (processRow sample_env ''body'' ''text'' ''Notes'' [] row_delete) = Inr ([] @ [d]) \<and>
           search_action d = (if action_type row_delete = ''INSERT'' then ''upload'' else ''mergeOrUpload'') \<and>
           id_doc d = i \<and> content d = c \<and>
           (\<forall>before after. \<exists>published.
              fst (forRows sample_env ''body'' ''text'' ''Notes'' [] (before @ row_delete # after)) =
                Inr published \<and> d \<in> set published))"
      using C8_action_and_id [of sample_env row_delete "''body''" "''text''" "''Notes''" "[]" "[]"]
      by (rule conjunct1)
    with b(1,2) obtain d1 where d1:
      "fst (processRow sample_env ''body'' ''text'' ''Notes'' [] row_delete) = Inr ([] @ [d1])"
      "search_action d1 = (if action_type row_delete = ''INSERT'' then ''upload'' else ''mergeOrUpload'')"
      "id_doc d1 = ''11''"
      by fastforce
    from d1(1) d have "d1 = document_delete" by simp
    with d1(2,3) b(3) show ?thesis by simp
  qed
  have batch: "fst (forRows sample_env ''body'' ''text'' ''Notes'' [] [row_jan2, row_delete]) =
     Inr [sample_documents ! 0, document_delete]"
    by code_simp
  from insert delete batch show ?thesis
    using a b c d by simp
qed

section \<open>Sessions\<close>

lemma scoped_append: "scoped held t \<Longrightarrow> scoped False t' \<Longrightarrow> scoped held (t @ t')"
  by (induction held t rule: scoped.induct) auto

lemma scoped_concat: "(\<And>x. x \<in> set xs \<Longrightarrow> scoped False (f x)) \<Longrightarrow> scoped False (concat (map f xs))"
  by (induction xs) (auto intro: scoped_append)

lemma scoped_fetchUpdatedRows: "scoped False (snd (fetchUpdatedRows env config))"
proof (cases "source config")
  case None
  then show ?thesis
    using fetchUpdatedRows_without_source [of config env] by auto
next
  case (Some src)
  then show ?thesis
    by (simp add: fetchUpdatedRows_unfold Let_def split: sum.splits)
qed

lemma scoped_forRows: "scoped False (snd (forRows env fieldName fieldType category' documents rows))"
  by (induction rows) (simp_all add: forRows_unfold)

lemma scoped_processAndIndexData:
  "scoped False (snd (processAndIndexData env rows fieldName fieldType category' indexName))"
  by (auto simp: processAndIndexData_trace Let_def intro: scoped_append scoped_forRows)

lemma scoped_processConfig: "scoped False (snd (processConfig env config))"
proof (cases "source config")
  case None
  then show ?thesis
    using processConfig_without_source [of config env] by auto
next
  case (Some src)
  then show ?thesis
    using scoped_fetchUpdatedRows [of env config]
    by (cases "fetchUpdatedRows env config")
       (auto simp: processConfig_unfold split: sum.splits
          intro: scoped_append scoped_processAndIndexData)
qed

lemma scoped_forConfigs: "scoped False (snd (forConfigs env configs))"
  by (simp add: forConfigs_trace scoped_concat scoped_processConfig)

lemma scoped_processIndex: "scoped False (snd (processIndex env indexName))"
  by (simp add: processIndex_trace scoped_forConfigs split: sum.splits)

lemma scoped_processIndices: "scoped False (snd (processIndices env indices))"
  by (simp add: processIndices_unfold scoped_concat scoped_processIndex)

text \<open>
  C9: every fetch of a configuration begins with its own \<open>pool.connect()\<close>. When that
  succeeds, the fetch ends with the one \<open>client.release()\<close> it makes, whether the query,
  the checkpoint write or nothing failed; when it fails, no session was acquired and the
  fetch does nothing more. A fetch for a hit without source document throws before it
  connects and makes no call at all. Over a whole cycle no session is held outside a
  fetch, and no fetch begins while one is held.
\<close>

theorem C9_session_scoped_to_fetch:
  "(\<forall>src. source config = Some src \<longrightarrow>
      (\<exists>out. hd (snd (fetchUpdatedRows env config)) =
         (PoolConnect (host src) (user src) (password src) (database src), out)) \<and>
      (\<forall>client. pg_connect env src = Inr client \<longrightarrow>
         last (snd (fetchUpdatedRows env config)) = (ClientRelease, Returned) \<and>
         length (filter (\<lambda>(c, out). c = ClientRelease) (snd (fetchUpdatedRows env config))) = 1) \<and>
      (\<forall>e. pg_connect env src = Inl e \<longrightarrow>
         snd (fetchUpdatedRows env config) =
           [(PoolConnect (host src) (user src) (password src) (database src), Threw)])) \<and>
   (source config = None \<longrightarrow> snd (fetchUpdatedRows env config) = []) \<and>
   scoped False (snd (fetchUpdatedRows env config)) \<and>
   scoped False (snd (lastModifiedListener env))"
proof -
  have "\<exists>out. hd (snd (fetchUpdatedRows env config)) =
      (PoolConnect (host src) (user src) (password src) (database src), out)"
    if "source config = Some src" for src
    by (simp add: fetchUpdatedRows_unfold [OF that] Let_def split: sum.splits)
  moreover have "last (snd (fetchUpdatedRows env config)) = (ClientRelease, Returned) \<and>
      length (filter (\<lambda>(c, out). c = ClientRelease) (snd (fetchUpdatedRows env config))) = 1"
    if "source config = Some src" and "pg_connect env src = Inr client" for src client
    using that(2) by (simp add: fetchUpdatedRows_unfold [OF that(1)] Let_def split: sum.splits)
  moreover have "snd (fetchUpdatedRows env config) =
        [(PoolConnect (host src) (user src) (password src) (database src), Threw)]"
    if "source config = Some src" and "pg_connect env src = Inl e" for src e
    using that(2) by (simp add: fetchUpdatedRows_unfold [OF that(1)] Let_def)
  moreover have "snd (fetchUpdatedRows env config) = []" if "source config = None"
    using fetchUpdatedRows_without_source [OF that, of env] by auto
  moreover have "scoped False (snd (lastModifiedListener env))"
    by (simp add: lastModifiedListener_unfold scoped_processIndices split: sum.splits)
  ultimately show ?thesis
    using scoped_fetchUpdatedRows by blast
qed

text \<open>C9 with one source that refuses the connection and one that accepts it.\<close>

theorem C9_session_scoped_to_fetch_witness:
  "source sample_config = Some sample_source \<and>
   pg_connect env_partial sample_source = Inr () \<and>
   source config_unreachable = Some unreachable_source \<and>
   pg_connect env_partial unreachable_source = Inl (Error ''connect ECONNREFUSED'') \<and>
   last (snd (fetchUpdatedRows env_partial sample_config)) = (ClientRelease, Returned) \<and>
   snd (fetchUpdatedRows env_partial config_unreachable) =
     [(PoolConnect ''db.down'' ''sync'' ''secret'' ''erp'', Threw)] \<and>
   source config_without_source = None \<and>
   snd (fetchUpdatedRows env_partial config_without_source) = [] \<and>
   scoped False (snd (lastModifiedListener env_partial))"
proof -
  have a: "source sample_config = Some sample_source" "pg_connect env_partial sample_source = Inr ()"
    by code_simp+
  have b: "source config_unreachable = Some unreachable_source"
    "pg_connect env_partial unreachable_source = Inl (Error ''connect ECONNREFUSED'')"
    by code_simp+
  have c: "source config_without_source = None"
    by (simp add: config_without_source_def)
  have d: "host unreachable_source = ''db.down''" "user unreachable_source = ''sync''"
    "password unreachable_source = ''secret''" "database unreachable_source = ''erp''"
    by (simp_all add: unreachable_source_def)
  show ?thesis
    using a b c C9_session_scoped_to_fetch [of sample_config env_partial]
      C9_session_scoped_to_fetch [of config_unreachable env_partial]
      C9_session_scoped_to_fetch [of config_without_source env_partial]
    by (simp add: d)
qed

section \<open>When the sink is called\<close>

text \<open>
  C10: the sink is posted to if and only if the transformation produced at least one
  document, and then exactly once, with all the documents; when every row of the batch is
  dropped, nothing is sent.
\<close>

theorem C10_publish_iff_documents:
  assumes "fst (forRows env fieldName fieldType category' [] rows) = Inr documents"
  shows "((\<exists>c out. (c, out) \<in> set (snd (processAndIndexData env rows fieldName fieldType
                                           category' indexName)) \<and> is_publish c)
            \<longleftrightarrow> documents \<noteq> []) \<and>
         (documents \<noteq> [] \<longrightarrow>
            (\<exists>out. filter (\<lambda>(c, out). is_publish c)
                      (snd (processAndIndexData env rows fieldName fieldType category' indexName)) =
                    [(AxiosPost indexName documents, out)])) \<and>
         ((\<forall>r \<in> set rows. fst (processRow env fieldName fieldType category' [] r) = Inr []) \<longrightarrow>
            documents = [])"
proof -
  from assms have docs: "documents = concat (map (rowDocuments env fieldName fieldType category') rows)"
    by (simp add: forRows_unfold)
  have publish: "is_publish (AxiosPost indexName d)" for d
    by (simp add: is_publish_def)
  have transform: "filter (\<lambda>(c, out). is_publish c)
      (snd (forRows env fieldName fieldType category' [] rows)) = []"
    by (auto simp: forRows_unfold filter_empty_conv is_publish_def)
  have trace: "filter (\<lambda>(c, out). is_publish c)
      (snd (processAndIndexData env rows fieldName fieldType category' indexName)) =
      (if documents = [] then []
       else [(AxiosPost indexName documents,
              case axios_post env indexName documents of Inl e \<Rightarrow> Threw | Inr u \<Rightarrow> Returned)])"
    unfolding processAndIndexData_trace docs Let_def
    by (simp add: transform publish del: concat_eq_Nil_conv)
  have "(\<exists>c out. (c, out) \<in> set (snd (processAndIndexData env rows fieldName fieldType
                                           category' indexName)) \<and> is_publish c)
      \<longleftrightarrow> filter (\<lambda>(c, out). is_publish c)
            (snd (processAndIndexData env rows fieldName fieldType category' indexName)) \<noteq> []"
    by (auto simp: filter_empty_conv)
  then have iff: "(\<exists>c out. (c, out) \<in> set (snd (processAndIndexData env rows fieldName fieldType
                                           category' indexName)) \<and> is_publish c)
      \<longleftrightarrow> documents \<noteq> []"
    by (simp add: trace)
  have dropped: "documents = []"
    if "\<forall>r \<in> set rows. fst (processRow env fieldName fieldType category' [] r) = Inr []"
    using that by (simp add: docs processRow_unfold)
  from iff trace dropped show ?thesis by auto
qed

text \<open>C10 on a batch whose rows all have empty content, and on one that yields documents.\<close>

theorem C10_publish_iff_documents_witness:
  "fst (forRows env_all_empty ''body'' ''text'' ''Notes'' [] [row_jan2, row_jan3]) = Inr [] \<and>
   \<not> (\<exists>c out. (c, out) \<in> set (snd (processAndIndexData env_all_empty [row_jan2, row_jan3]
                                   ''body'' ''text'' ''Notes'' ''tenant_acme'')) \<and> is_publish c) \<and>
   fst (forRows sample_env ''body'' ''text'' ''Notes'' [] [row_jan2, row_jan3]) = Inr sample_documents \<and>
   (\<exists>c out. (c, out) \<in> set (snd (processAndIndexData sample_env [row_jan2, row_jan3]
                                   ''body'' ''text'' ''Notes'' ''tenant_acme'')) \<and> is_publish c)"
proof -
  have a: "fst (forRows env_all_empty ''body'' ''text'' ''Notes'' [] [row_jan2, row_jan3]) = Inr []"
    by code_simp
  have b: "fst (forRows sample_env ''body'' ''text'' ''Notes'' [] [row_jan2, row_jan3]) =
      Inr sample_documents"
    by code_simp
  have c: "sample_documents \<noteq> []"
    by (simp add: sample_documents_def)
  show ?thesis
    using a b c C10_publish_iff_documents [OF a, of "''tenant_acme''"]
      C10_publish_iff_documents [OF b, of "''tenant_acme''"]
    by simp
qed

end
